theory Spec2Isabelle
  imports Main "HOL-Library.Word"
begin

section \<open>Strings of the host language\<close>

text \<open>
  A string of the plugin is a sequence of 16-bit code units. \<open>js\<close> embeds an ASCII
  literal of the source; \<open>LF\<close> is the \<^verbatim>\<open>\n\<close> of its template literals.
\<close>

type_synonym code_unit = "16 word"
type_synonym jsstring = "code_unit list"

definition js :: "string \<Rightarrow> jsstring" where
  "js s = map (\<lambda>c. of_nat (of_char c)) s"

definition LF :: code_unit where
  "LF = 0x0A"

definition TAB :: code_unit where
  "TAB = 0x09"

text \<open>
  \<^verbatim>\<open>String.prototype.trim\<close> strips the WhiteSpace and LineTerminator code points from
  both ends: TAB, LF, VT, FF, CR, SP, NBSP, U+1680, U+2000..U+200A, U+2028, U+2029,
  U+202F, U+205F, U+3000 and U+FEFF.
\<close>

definition is_white_space :: "code_unit \<Rightarrow> bool" where
  "is_white_space c =
     (c = 0x09 \<or> c = 0x0A \<or> c = 0x0B \<or> c = 0x0C \<or> c = 0x0D \<or> c = 0x20 \<or> c = 0xA0
      \<or> c = 0x1680 \<or> (0x2000 \<le> c \<and> c \<le> 0x200A) \<or> c = 0x2028 \<or> c = 0x2029
      \<or> c = 0x202F \<or> c = 0x205F \<or> c = 0x3000 \<or> c = 0xFEFF)"

definition trim :: "jsstring \<Rightarrow> jsstring" where
  "trim s = rev (dropWhile is_white_space (rev (dropWhile is_white_space s)))"

section \<open>The plugin's state\<close>

datatype role = User | Bot

record ChatMessage =
  role :: role
  content :: jsstring
  timestamp :: nat

text \<open>
  The children of \<^verbatim>\<open>.gemini-chat-messages\<close>: a \<^verbatim>\<open>gemini-message-user\<close> or
  \<^verbatim>\<open>gemini-message-bot\<close> element with its content, a \<^verbatim>\<open>gemini-message-error\<close>
  element with its text, or a \<^verbatim>\<open>typing-indicator\<close>. An indicator carries the identity
  of the element \<^verbatim>\<open>document.createElement\<close> returned, since \<^verbatim>\<open>handleMessage\<close>
  later removes that very element.
\<close>

datatype chat_node =
    MessageEl role jsstring
  | ErrorEl jsstring
  | TypingIndicator nat

datatype css_display = DisplayNone | DisplayFlex | DisplayBlock

datatype GeminiService = GeminiService jsstring

record TFile =
  path :: jsstring
  basename :: jsstring

record textarea =
  input_value :: jsstring
  placeholder :: jsstring
  focused :: bool

record plugin =
  apiKey :: jsstring
  geminiService :: "GeminiService option"
  messagesContainer :: "chat_node list option"
  inputField :: "textarea option"
  currentFileContent :: "jsstring option"
  chatContainer_display :: css_display
  suggestedActions_display :: css_display
  currentFile_text :: jsstring
  currentFile_display :: css_display
  nextNode :: nat

text \<open>
  What a handler hands to the outside and does not wait for synchronously: the remote
  calls of the model client, the language picker it opens and the vault read.
\<close>

datatype js_error = InvalidCharacterError | RemoteError jsstring

datatype request =
    SendMessage jsstring nat
  | TranslateContent jsstring jsstring
  | OpenLanguageModal jsstring
  | VaultRead TFile

section \<open>The transcript\<close>

definition addMessageToChat :: "plugin \<Rightarrow> ChatMessage \<Rightarrow> plugin" where
  "addMessageToChat st message =
     (case messagesContainer st of
        None \<Rightarrow> st
      | Some children \<Rightarrow>
          st\<lparr>messagesContainer := Some (children @ [MessageEl (role message) (content message)])\<rparr>)"

definition addErrorMessage :: "plugin \<Rightarrow> jsstring \<Rightarrow> plugin" where
  "addErrorMessage st message =
     (case messagesContainer st of
        None \<Rightarrow> st
      | Some children \<Rightarrow> st\<lparr>messagesContainer := Some (children @ [ErrorEl message])\<rparr>)"

definition toggleSuggestedActions :: "plugin \<Rightarrow> bool \<Rightarrow> plugin" where
  "toggleSuggestedActions st show =
     st\<lparr>suggestedActions_display := (if show then DisplayBlock else DisplayNone)\<rparr>"

text \<open>\<^verbatim>\<open>typingIndicator.remove()\<close>: the element leaves its parent, if it has one.\<close>

definition remove_node :: "nat \<Rightarrow> plugin \<Rightarrow> plugin" where
  "remove_node n st =
     st\<lparr>messagesContainer :=
          map_option (filter (\<lambda>x. x \<noteq> TypingIndicator n)) (messagesContainer st)\<rparr>"

text \<open>The Conversation is what the transcript holds apart from pending indicators.\<close>

fun is_indicator :: "chat_node \<Rightarrow> bool" where
  "is_indicator (TypingIndicator n) = True"
| "is_indicator (MessageEl r c) = False"
| "is_indicator (ErrorEl c) = False"

fun is_user :: "chat_node \<Rightarrow> bool" where
  "is_user (MessageEl r c) = (r = User)"
| "is_user (ErrorEl c) = False"
| "is_user (TypingIndicator n) = False"

definition children :: "plugin \<Rightarrow> chat_node list" where
  "children st = (case messagesContainer st of None \<Rightarrow> [] | Some ns \<Rightarrow> ns)"

definition conversation :: "plugin \<Rightarrow> chat_node list" where
  "conversation st = filter (\<lambda>n. \<not> is_indicator n) (children st)"

section \<open>Submitting a message\<close>

text \<open>
  \<^verbatim>\<open>handleMessage\<close> runs up to its \<^verbatim>\<open>await\<close> and leaves the request it issued;
  \<open>handleMessage_resume\<close> is the rest of its body, run on the state the plugin has when
  the call settles. \<open>Inl\<close> is a rejected promise.
\<close>

definition contextMessage :: "jsstring option \<Rightarrow> jsstring \<Rightarrow> jsstring" where
  "contextMessage fileContent message =
     (case fileContent of
        None \<Rightarrow> message
      | Some text \<Rightarrow>
          if text \<noteq> []
          then js ''Context from current note:'' @ [LF] @ text @ [LF, LF]
               @ js ''User question: '' @ message
          else message)"

definition handleMessage :: "plugin \<Rightarrow> jsstring \<Rightarrow> nat \<Rightarrow> plugin \<times> request list" where
  "handleMessage st message now =
     (if geminiService st = None \<or> trim message = [] then (st, [])
      else
        let st1 = toggleSuggestedActions st False;
            prompt = contextMessage (currentFileContent st1) message;
            userMessage = \<lparr>role = User, content = message, timestamp = now\<rparr>;
            st2 = addMessageToChat st1 userMessage;
            typingIndicator = nextNode st2;
            st3 = st2\<lparr>nextNode := Suc typingIndicator,
                      messagesContainer :=
                        map_option (\<lambda>ns. ns @ [TypingIndicator typingIndicator])
                          (messagesContainer st2)\<rparr>
        in (st3, [SendMessage prompt typingIndicator]))"

definition handleMessage_try ::
    "plugin \<Rightarrow> nat \<Rightarrow> js_error + jsstring \<Rightarrow> nat \<Rightarrow> js_error + plugin" where
  "handleMessage_try st typingIndicator settled now =
     (case settled of
        Inl error \<Rightarrow> Inl error
      | Inr response \<Rightarrow>
          Inr (addMessageToChat (remove_node typingIndicator st)
                 \<lparr>role = Bot, content = response, timestamp = now\<rparr>))"

definition handleMessage_resume ::
    "plugin \<Rightarrow> nat \<Rightarrow> js_error + jsstring \<Rightarrow> nat \<Rightarrow> js_error + plugin" where
  "handleMessage_resume st typingIndicator settled now =
     (case handleMessage_try st typingIndicator settled now of
        Inr st' \<Rightarrow> Inr st'
      | Inl error \<Rightarrow>
          Inr (addErrorMessage (remove_node typingIndicator st)
                 (js ''Failed to get response from Gemini'')))"

text \<open>
  The click handler of the send button; the \<^verbatim>\<open>keydown\<close> handler does the same on
  Enter without Shift.
\<close>

definition sendButton_click :: "plugin \<Rightarrow> nat \<Rightarrow> plugin \<times> request list" where
  "sendButton_click st now =
     (case inputField st of
        None \<Rightarrow> (st, [])
      | Some field \<Rightarrow>
          let message = trim (input_value field) in
          if message \<noteq> [] then
            (case handleMessage st message now of
               (st', requests) \<Rightarrow>
                 (st'\<lparr>inputField :=
                       map_option (\<lambda>f. f\<lparr>input_value := []\<rparr>) (inputField st')\<rparr>,
                  requests))
          else (st, []))"

section \<open>Suggested actions\<close>

text \<open>
  The four \<^verbatim>\<open>.action-button\<close> elements of the panel's markup. Each holds, on lines
  of their own, a \<^verbatim>\<open>span.action-icon\<close> with an icon and then the label, so its
  \<^verbatim>\<open>textContent\<close> is: line break and five tabs, the icon, line break and five tabs,
  the label, line break and four tabs. The icons are U+1F4DD, U+1F50D, U+2713 and
  U+1F310, the first, second and fourth as surrogate pairs.
\<close>

datatype action_button = SummarizeButton | AskButton | ActionItemsButton | TranslateButton

definition button_markup :: "jsstring \<Rightarrow> jsstring \<Rightarrow> jsstring" where
  "button_markup icon label =
     [LF, TAB, TAB, TAB, TAB, TAB] @ icon @ [LF, TAB, TAB, TAB, TAB, TAB] @ label
     @ [LF, TAB, TAB, TAB, TAB]"

fun textContent :: "action_button \<Rightarrow> jsstring" where
  "textContent SummarizeButton = button_markup [0xD83D, 0xDCDD] (js ''Summarize this page'')"
| "textContent AskButton = button_markup [0xD83D, 0xDD0D] (js ''Ask about this page'')"
| "textContent ActionItemsButton = button_markup [0x2713] (js ''Find action items'')"
| "textContent TranslateButton = button_markup [0xD83C, 0xDF10] (js ''Translate to'')"

text \<open>
  The click handler of an \<^verbatim>\<open>.action-button\<close>; \<open>buttonText\<close> is the
  \<^verbatim>\<open>textContent\<close> of the button clicked, which the handler trims into
  \<open>action\<close>. \<^verbatim>\<open>focus()\<close> does nothing on a field of a panel that is not
  displayed.
\<close>

definition showLanguageSelectionModal :: "plugin \<Rightarrow> jsstring \<Rightarrow> plugin \<times> request list" where
  "showLanguageSelectionModal st text = (st, [OpenLanguageModal text])"

definition actionButton_click ::
    "plugin \<Rightarrow> jsstring option \<Rightarrow> nat \<Rightarrow> plugin \<times> request list" where
  "actionButton_click st buttonText now =
     (let action = map_option trim buttonText in
      case currentFileContent st of
        None \<Rightarrow> (addErrorMessage st (js ''No active file selected''), [])
      | Some text \<Rightarrow>
          if text = [] then (addErrorMessage st (js ''No active file selected''), [])
          else
            let st1 = toggleSuggestedActions st False in
            if action = Some (js ''Summarize this page'') then
              handleMessage st1
                (js ''Please provide a concise summary of this content:'' @ [LF] @ text) now
            else if action = Some (js ''Ask about this page'') then
              (case inputField st1 of
                 None \<Rightarrow> (st1, [])
               | Some field \<Rightarrow>
                   (st1\<lparr>inputField :=
                          Some (field\<lparr>focused :=
                                        (if chatContainer_display st1 = DisplayNone
                                         then focused field else True),
                                  placeholder := js ''Ask a question about this page...''\<rparr>)\<rparr>,
                    []))
            else if action = Some (js ''Find action items'') then
              handleMessage st1
                (js ''Please analyze this content and list all action items, tasks, and to-dos:''
                 @ [LF] @ text) now
            else if action = Some (js ''Translate to'') then
              showLanguageSelectionModal st1 text
            else (st1, []))"

text \<open>
  The callback the language picker invokes with the chosen language, and the two
  handlers chained on the promise of \<^verbatim>\<open>translateContent\<close>.
\<close>

definition languageSelected ::
    "plugin \<Rightarrow> jsstring \<Rightarrow> jsstring \<Rightarrow> plugin \<times> request list" where
  "languageSelected st text language =
     (if geminiService st \<noteq> None then (st, [TranslateContent text language]) else (st, []))"

definition translateContent_settled :: "plugin \<Rightarrow> js_error + jsstring \<Rightarrow> nat \<Rightarrow> plugin" where
  "translateContent_settled st settled now =
     (case settled of
        Inr translation \<Rightarrow>
          addMessageToChat st \<lparr>role = Bot, content = translation, timestamp = now\<rparr>
      | Inl error \<Rightarrow> addErrorMessage st (js ''Translation failed''))"

section \<open>Opening and closing the panel\<close>

definition updateChatHeader :: "plugin \<Rightarrow> TFile option \<Rightarrow> plugin" where
  "updateChatHeader st activeFile =
     (case activeFile of
        Some file \<Rightarrow> st\<lparr>currentFile_text := basename file, currentFile_display := DisplayBlock\<rparr>
      | None \<Rightarrow> st\<lparr>currentFile_display := DisplayNone\<rparr>)"

definition toggleChatContainer :: "plugin \<Rightarrow> TFile option \<Rightarrow> plugin \<times> request list" where
  "toggleChatContainer st activeFile =
     (let isVisible = (chatContainer_display st \<noteq> DisplayNone);
          st1 = st\<lparr>chatContainer_display := (if isVisible then DisplayNone else DisplayFlex)\<rparr>
      in if \<not> isVisible then
           let st2 = st1\<lparr>messagesContainer := map_option (\<lambda>ns. []) (messagesContainer st1)\<rparr>;
               st3 = updateChatHeader st2 activeFile;
               reads = (case activeFile of Some file \<Rightarrow> [VaultRead file] | None \<Rightarrow> [])
           in (toggleSuggestedActions st3 True, reads)
         else (st1, []))"

text \<open>The \<^verbatim>\<open>then\<close> of the vault read.\<close>

definition vaultRead_resolved :: "plugin \<Rightarrow> jsstring \<Rightarrow> plugin" where
  "vaultRead_resolved st text = st\<lparr>currentFileContent := Some text\<rparr>"

section \<open>The credential transform\<close>

text \<open>
  \<^verbatim>\<open>btoa\<close> and \<^verbatim>\<open>atob\<close> of the host: \<^verbatim>\<open>btoa\<close> throws on a code unit above
  U+00FF and otherwise encodes the bytes in base64 (RFC 4648, with padding);
  \<^verbatim>\<open>atob\<close> is the forgiving base64 decoder: it drops ASCII whitespace, drops one or two
  trailing \<^verbatim>\<open>=\<close> when the length is a multiple of four, throws when the length is then
  1 modulo 4 or a character is outside the alphabet, and discards the bits of an
  incomplete last byte. Bytes and ASCII codes are natural numbers here.
\<close>

definition base64_char :: "nat \<Rightarrow> nat" where
  "base64_char n =
     (if n < 26 then 65 + n
      else if n < 52 then 71 + n
      else if n < 62 then n - 4
      else if n = 62 then 43
      else 47)"

definition base64_value :: "nat \<Rightarrow> nat option" where
  "base64_value c =
     (if 65 \<le> c \<and> c \<le> 90 then Some (c - 65)
      else if 97 \<le> c \<and> c \<le> 122 then Some (c - 71)
      else if 48 \<le> c \<and> c \<le> 57 then Some (c + 4)
      else if c = 43 then Some 62
      else if c = 47 then Some 63
      else None)"

fun to_sextets :: "nat list \<Rightarrow> nat list" where
  "to_sextets (a # b # c # bytes) =
     [a div 4, (a mod 4) * 16 + b div 16, (b mod 16) * 4 + c div 64, c mod 64] @ to_sextets bytes"
| "to_sextets [a, b] = [a div 4, (a mod 4) * 16 + b div 16, (b mod 16) * 4]"
| "to_sextets [a] = [a div 4, (a mod 4) * 16]"
| "to_sextets [] = []"

fun padding :: "nat list \<Rightarrow> nat list" where
  "padding (a # b # c # bytes) = padding bytes"
| "padding [a, b] = [61]"
| "padding [a] = [61, 61]"
| "padding [] = []"

definition base64_encode :: "nat list \<Rightarrow> nat list" where
  "base64_encode bytes = map base64_char (to_sextets bytes) @ padding bytes"

fun from_sextets :: "nat list \<Rightarrow> nat list" where
  "from_sextets (p # q # r # s # sextets) =
     [p * 4 + q div 16, (q mod 16) * 16 + r div 4, (r mod 4) * 64 + s] @ from_sextets sextets"
| "from_sextets [p, q, r] = [p * 4 + q div 16, (q mod 16) * 16 + r div 4]"
| "from_sextets [p, q] = [p * 4 + q div 16]"
| "from_sextets [p] = []"
| "from_sextets [] = []"

definition is_ascii_whitespace :: "nat \<Rightarrow> bool" where
  "is_ascii_whitespace c = (c = 9 \<or> c = 10 \<or> c = 12 \<or> c = 13 \<or> c = 32)"

definition strip_padding :: "nat list \<Rightarrow> nat list" where
  "strip_padding data =
     (if length data mod 4 = 0 \<and> data \<noteq> [] \<and> last data = 61
      then (if butlast data \<noteq> [] \<and> last (butlast data) = 61 then butlast (butlast data)
            else butlast data)
      else data)"

fun those_values :: "nat list \<Rightarrow> nat list option" where
  "those_values [] = Some []"
| "those_values (c # cs) =
     (case base64_value c of
        None \<Rightarrow> None
      | Some v \<Rightarrow> (case those_values cs of None \<Rightarrow> None | Some vs \<Rightarrow> Some (v # vs)))"

definition forgiving_base64_decode :: "nat list \<Rightarrow> nat list option" where
  "forgiving_base64_decode input =
     (let data = strip_padding (filter (\<lambda>c. \<not> is_ascii_whitespace c) input)
      in if length data mod 4 = 1 then None
         else (case those_values data of
                 None \<Rightarrow> None
               | Some sextets \<Rightarrow> Some (from_sextets sextets)))"

definition btoa :: "jsstring \<Rightarrow> js_error + jsstring" where
  "btoa data =
     (if list_ex (\<lambda>c. c > 0xFF) data then Inl InvalidCharacterError
      else Inr (map of_nat (base64_encode (map unat data))))"

definition atob :: "jsstring \<Rightarrow> js_error + jsstring" where
  "atob data =
     (case forgiving_base64_decode (map unat data) of
        None \<Rightarrow> Inl InvalidCharacterError
      | Some bytes \<Rightarrow> Inr (map of_nat bytes))"

text \<open>
  \<^verbatim>\<open>key.split('').reverse().join('')\<close> reverses the code units. An exception of
  \<^verbatim>\<open>btoa\<close> or \<^verbatim>\<open>atob\<close> leaves the method.
\<close>

definition encryptApiKey :: "jsstring \<Rightarrow> js_error + jsstring" where
  "encryptApiKey key = btoa (rev key)"

definition decryptApiKey :: "jsstring \<Rightarrow> js_error + jsstring" where
  "decryptApiKey encryptedKey =
     (case atob encryptedKey of Inl error \<Rightarrow> Inl error | Inr decoded \<Rightarrow> Inr (rev decoded))"

text \<open>The two compositions of the round-trip law, an exception ending either.\<close>

definition reveal_obfuscate :: "jsstring \<Rightarrow> js_error + jsstring" where
  "reveal_obfuscate s =
     (case encryptApiKey s of Inl error \<Rightarrow> Inl error | Inr stored \<Rightarrow> decryptApiKey stored)"

definition obfuscate_reveal :: "jsstring \<Rightarrow> js_error + jsstring" where
  "obfuscate_reveal s =
     (case decryptApiKey s of Inl error \<Rightarrow> Inl error | Inr plain \<Rightarrow> encryptApiKey plain)"

definition initializeGeminiService :: "plugin \<Rightarrow> plugin" where
  "initializeGeminiService st =
     (if apiKey st \<noteq> [] then
        (case decryptApiKey (apiKey st) of
           Inl error \<Rightarrow> st
         | Inr decryptedKey \<Rightarrow> st\<lparr>geminiService := Some (GeminiService decryptedKey)\<rparr>)
      else st)"

section \<open>A concrete plugin\<close>

definition example_plugin :: plugin where
  "example_plugin =
     \<lparr>apiKey = js ''MzIxY2Jh'',
      geminiService = Some (GeminiService (js ''abc123'')),
      messagesContainer = Some [MessageEl User (js ''Hi''), TypingIndicator 0],
      inputField = Some \<lparr>input_value = [], placeholder = js ''Ask anything or select...'',
                          focused = False\<rparr>,
      currentFileContent = Some (js ''Doc text''),
      chatContainer_display = DisplayNone,
      suggestedActions_display = DisplayBlock,
      currentFile_text = js ''Note'',
      currentFile_display = DisplayBlock,
      nextNode = 1\<rparr>"

section \<open>Facts about trimming and the transcript\<close>

lemma trim_Nil_iff: "trim s = [] \<longleftrightarrow> (\<forall>c\<in>set s. is_white_space c)"
proof
  assume "trim s = []"
  then have "dropWhile is_white_space (rev (dropWhile is_white_space s)) = []"
    by (simp add: trim_def)
  then have "\<forall>c\<in>set (dropWhile is_white_space s). is_white_space c"
    by (simp add: dropWhile_eq_Nil_conv)
  moreover have "\<forall>c\<in>set (takeWhile is_white_space s). is_white_space c"
    by (auto dest: set_takeWhileD)
  moreover have "set s = set (takeWhile is_white_space s) \<union> set (dropWhile is_white_space s)"
    by (metis set_append takeWhile_dropWhile_id)
  ultimately show "\<forall>c\<in>set s. is_white_space c" by blast
next
  assume "\<forall>c\<in>set s. is_white_space c"
  then have d: "dropWhile is_white_space s = []" by simp
  show "trim s = []" unfolding trim_def d by simp
qed

lemma trim_trim: "trim (trim s) = trim s"
proof -
  let ?P = is_white_space
  let ?t = "dropWhile ?P s"
  let ?u = "dropWhile ?P (rev ?t)"
  have keep: "dropWhile ?P (rev ?u) = rev ?u"
  proof (cases "?u = []")
    case True
    show ?thesis unfolding True by simp
  next
    case False
    have "rev ?t = takeWhile ?P (rev ?t) @ ?u" by simp
    then have "rev (rev ?t) = rev (takeWhile ?P (rev ?t) @ ?u)" by (rule arg_cong)
    then have t: "?t = rev ?u @ rev (takeWhile ?P (rev ?t))" by (simp only: rev_rev_ident rev_append)
    from False have ne: "rev ?u \<noteq> []" by simp
    then have "hd ?t = hd (rev ?u)" using t by (metis hd_append2)
    moreover have "?t \<noteq> []" using t ne by (metis append_is_Nil_conv)
    then have "\<not> ?P (hd ?t)" by (rule hd_dropWhile)
    ultimately have "\<not> ?P (hd (rev ?u))" by simp
    then show ?thesis by (simp only: dropWhile_eq_self_iff) simp
  qed
  have "trim (trim s) = rev (dropWhile ?P (rev (dropWhile ?P (rev ?u))))"
    by (simp only: trim_def)
  also have "\<dots> = rev (dropWhile ?P (rev (rev ?u)))" by (simp only: keep)
  also have "\<dots> = rev ?u" by (simp only: rev_rev_ident dropWhile_idem)
  also have "\<dots> = trim s" by (simp only: trim_def)
  finally show ?thesis .
qed

lemma handleMessage_issued:
  assumes "geminiService st \<noteq> None" and "trim message \<noteq> []"
    and "messagesContainer st = Some ns"
  shows "handleMessage st message now =
           (st\<lparr>suggestedActions_display := DisplayNone,
               messagesContainer :=
                 Some (ns @ [MessageEl User message, TypingIndicator (nextNode st)]),
               nextNode := Suc (nextNode st)\<rparr>,
            [SendMessage (contextMessage (currentFileContent st) message) (nextNode st)])"
  using assms
  by (simp add: handleMessage_def Let_def addMessageToChat_def toggleSuggestedActions_def)


section \<open>Submitting\<close>

text \<open>
  C2, as amended. A submission whose text is non-empty after trimming, with a model
  client configured, appends one user message holding the text as given, whatever
  the active context, and the pending indicator comes after it in the transcript.
\<close>

theorem submit_appends_user_message:
  assumes "geminiService st \<noteq> None" and "trim rawText \<noteq> []"
    and "messagesContainer st = Some ns"
  shows "children (fst (handleMessage st rawText now)) =
           ns @ [MessageEl User rawText, TypingIndicator (nextNode st)]
         \<and> conversation (fst (handleMessage st rawText now)) =
             conversation st @ [MessageEl User rawText]"
  using assms by (simp add: handleMessage_issued children_def conversation_def)

theorem submit_appends_user_message_witness:
  "geminiService example_plugin \<noteq> None \<and> trim (js ''Hello'') \<noteq> []
   \<and> messagesContainer example_plugin = Some [MessageEl User (js ''Hi''), TypingIndicator 0]
   \<and> children (fst (handleMessage example_plugin (js ''Hello'') 7)) =
       [MessageEl User (js ''Hi''), TypingIndicator 0, MessageEl User (js ''Hello''),
        TypingIndicator 1]"
proof -
  have h1: "geminiService example_plugin \<noteq> None" by (simp add: example_plugin_def)
  have h2: "trim (js ''Hello'') \<noteq> []" by (simp add: trim_def js_def is_white_space_def)
  have h3: "messagesContainer example_plugin = Some [MessageEl User (js ''Hi''), TypingIndicator 0]"
    by (simp add: example_plugin_def)
  have h4: "nextNode example_plugin = 1" by (simp add: example_plugin_def)
  show ?thesis
    using h1 h2 h3 h4 submit_appends_user_message [OF h1 h2 h3, of 7] by simp
qed

text \<open>
  C2, as stated for every non-empty text, fails: a single space is non-empty and
  with a client configured nothing is appended, and with no client the text "Hello"
  is not appended either.
\<close>

theorem submit_blank_appends_nothing:
  "js '' '' \<noteq> [] \<and> geminiService example_plugin \<noteq> None
   \<and> handleMessage example_plugin (js '' '') 7 = (example_plugin, [])
   \<and> js ''Hello'' \<noteq> []
   \<and> handleMessage (example_plugin\<lparr>geminiService := None\<rparr>) (js ''Hello'') 7 =
       (example_plugin\<lparr>geminiService := None\<rparr>, [])"
  by (simp add: handleMessage_def trim_def js_def is_white_space_def example_plugin_def)

text \<open>
  What the send button submits is the trimmed input, and a non-empty trimmed input is
  never turned away by the whitespace guard of \<^verbatim>\<open>handleMessage\<close>.
\<close>

lemma send_click_submits:
  assumes "geminiService st \<noteq> None" and "inputField st = Some field"
    and "trim (input_value field) \<noteq> []" and "messagesContainer st = Some ns"
  shows "children (fst (sendButton_click st now)) =
           ns @ [MessageEl User (trim (input_value field)), TypingIndicator (nextNode st)]"
proof -
  have "trim (trim (input_value field)) \<noteq> []" using assms(3) by (simp add: trim_trim)
  then show ?thesis
    using assms
    by (simp add: sendButton_click_def Let_def handleMessage_def addMessageToChat_def
        toggleSuggestedActions_def children_def)
qed

text \<open>
  C1, as amended. With a client configured, a text that is non-empty after trimming
  and an active context holding a non-empty document text, the prompt sent is the
  template with the document text and then the question, and the transcript gets the
  question alone.
\<close>

theorem submit_prompt_composed:
  assumes "geminiService st \<noteq> None" and "trim Q \<noteq> []"
    and "currentFileContent st = Some D" and "D \<noteq> []"
    and "messagesContainer st = Some ns"
  shows "snd (handleMessage st Q now) =
           [SendMessage (js ''Context from current note:'' @ [LF] @ D @ [LF, LF]
                         @ js ''User question: '' @ Q) (nextNode st)]
         \<and> children (fst (handleMessage st Q now)) =
             ns @ [MessageEl User Q, TypingIndicator (nextNode st)]"
  using assms by (simp add: handleMessage_issued contextMessage_def children_def)

theorem submit_prompt_composed_witness:
  "geminiService example_plugin \<noteq> None \<and> trim (js ''Hello'') \<noteq> []
   \<and> currentFileContent example_plugin = Some (js ''Doc text'') \<and> js ''Doc text'' \<noteq> []
   \<and> messagesContainer example_plugin = Some [MessageEl User (js ''Hi''), TypingIndicator 0]
   \<and> snd (handleMessage example_plugin (js ''Hello'') 7) =
       [SendMessage (js ''Context from current note:'' @ [LF] @ js ''Doc text'' @ [LF, LF]
                     @ js ''User question: '' @ js ''Hello'') 1]"
proof -
  have h1: "geminiService example_plugin \<noteq> None" by (simp add: example_plugin_def)
  have h2: "trim (js ''Hello'') \<noteq> []" by (simp add: trim_def js_def is_white_space_def)
  have h3: "currentFileContent example_plugin = Some (js ''Doc text'')"
    by (simp add: example_plugin_def)
  have h4: "js ''Doc text'' \<noteq> []" by (simp add: js_def)
  have h5: "messagesContainer example_plugin = Some [MessageEl User (js ''Hi''), TypingIndicator 0]"
    by (simp add: example_plugin_def)
  have h6: "nextNode example_plugin = 1" by (simp add: example_plugin_def)
  show ?thesis
    using h1 h2 h3 h4 h5 h6 submit_prompt_composed [OF h1 h2 h3 h4 h5, of 7] by simp
qed

text \<open>
  C1, as stated, fails when the document text is empty: the prompt is then the
  question alone, not the template around an empty text.
\<close>

theorem submit_prompt_empty_document:
  "snd (handleMessage (example_plugin\<lparr>currentFileContent := Some []\<rparr>) (js ''Hello'') 7) =
     [SendMessage (js ''Hello'') 1]
   \<and> js ''Hello'' \<noteq> js ''Context from current note:'' @ [LF] @ [] @ [LF, LF]
                       @ js ''User question: '' @ js ''Hello''"
  by (simp add: handleMessage_def Let_def addMessageToChat_def toggleSuggestedActions_def
      contextMessage_def example_plugin_def trim_def js_def is_white_space_def)

text \<open>
  C3. When the remote call is rejected, in whatever state the plugin then is, the
  rest of the submission ends normally, the pending indicator is gone, the
  conversation is the one before with the fixed failure text appended, and nothing
  else of the plugin changes.
\<close>

theorem submit_failure_reported:
  assumes "messagesContainer st = Some ns"
  shows "\<exists>st'. handleMessage_resume st typingIndicator (Inl error) now = Inr st'
           \<and> conversation st' =
               conversation st @ [ErrorEl (js ''Failed to get response from Gemini'')]
           \<and> TypingIndicator typingIndicator \<notin> set (children st')
           \<and> st' = st\<lparr>messagesContainer :=
                       Some (filter (\<lambda>x. x \<noteq> TypingIndicator typingIndicator) ns
                             @ [ErrorEl (js ''Failed to get response from Gemini'')])\<rparr>"
proof -
  have "(x \<noteq> TypingIndicator typingIndicator \<and> \<not> is_indicator x) = (\<not> is_indicator x)" for x
    by (cases x) auto
  then have keep: "filter (\<lambda>x. x \<noteq> TypingIndicator typingIndicator \<and> \<not> is_indicator x) ns
              = filter (\<lambda>n. \<not> is_indicator n) ns"
    by simp
  show ?thesis
    using assms
    by (simp add: handleMessage_resume_def handleMessage_try_def addErrorMessage_def
        remove_node_def conversation_def children_def keep)
qed

theorem submit_failure_reported_witness:
  "messagesContainer example_plugin = Some [MessageEl User (js ''Hi''), TypingIndicator 0]
   \<and> (\<exists>st'. handleMessage_resume example_plugin 0 (Inl (RemoteError (js ''503''))) 9 = Inr st'
        \<and> children st' =
            [MessageEl User (js ''Hi''), ErrorEl (js ''Failed to get response from Gemini'')])"
proof -
  have h: "messagesContainer example_plugin = Some [MessageEl User (js ''Hi''), TypingIndicator 0]"
    by (simp add: example_plugin_def)
  show ?thesis
    using h submit_failure_reported [OF h, of 0 "RemoteError (js ''503'')" 9]
    by (auto simp: children_def)
qed

text \<open>
  C5. A text that is empty or all whitespace, and likewise a missing model client,
  makes the submission a no-op: the plugin is unchanged and no request is issued.
\<close>

theorem submit_noop:
  assumes "(\<forall>c\<in>set rawText. is_white_space c) \<or> geminiService st = None"
  shows "handleMessage st rawText now = (st, [])"
  using assms by (auto simp: handleMessage_def trim_Nil_iff)

theorem submit_noop_witness:
  "is_white_space 0x20
   \<and> handleMessage example_plugin (js '' '') 7 = (example_plugin, [])
   \<and> geminiService (example_plugin\<lparr>geminiService := None\<rparr>) = None
   \<and> handleMessage (example_plugin\<lparr>geminiService := None\<rparr>) (js ''Hello'') 7 =
       (example_plugin\<lparr>geminiService := None\<rparr>, [])"
proof -
  have h1: "\<forall>c\<in>set (js '' ''). is_white_space c" by (simp add: js_def is_white_space_def)
  have h2: "geminiService (example_plugin\<lparr>geminiService := None\<rparr>) = None" by simp
  have h3: "is_white_space 0x20" by (simp add: is_white_space_def)
  show ?thesis
    using h1 h2 h3 submit_noop [of "js '' ''" example_plugin 7]
      submit_noop [of "js ''Hello''" "example_plugin\<lparr>geminiService := None\<rparr>" 7]
    by blast
qed

text \<open>
  A submission run to its end with a failing client: the user message, then the
  failure text, and the indicator it showed is gone.
\<close>

lemma submit_then_failure:
  assumes "geminiService st \<noteq> None" and "trim rawText \<noteq> []"
    and "messagesContainer st = Some ns"
  shows "\<exists>st'. handleMessage_resume (fst (handleMessage st rawText now)) (nextNode st)
                 (Inl error) later = Inr st'
           \<and> conversation st' =
               conversation st @ [MessageEl User rawText,
                                  ErrorEl (js ''Failed to get response from Gemini'')]
           \<and> TypingIndicator (nextNode st) \<notin> set (children st')"
proof -
  have "(x \<noteq> TypingIndicator (nextNode st) \<and> \<not> is_indicator x) = (\<not> is_indicator x)" for x
    by (cases x) auto
  then have keep: "filter (\<lambda>x. x \<noteq> TypingIndicator (nextNode st) \<and> \<not> is_indicator x) ns
              = filter (\<lambda>n. \<not> is_indicator n) ns"
    by simp
  show ?thesis
    using assms
    by (simp add: handleMessage_issued handleMessage_resume_def handleMessage_try_def
        addErrorMessage_def remove_node_def conversation_def children_def keep)
qed

section \<open>Suggested actions\<close>

text \<open>
  C7. With no active context (none captured, or an empty text), the click on any
  suggested action, whatever the text of its button, appends the error
  "No active file selected" and issues no request.
\<close>

theorem action_without_context:
  assumes "currentFileContent st = None \<or> currentFileContent st = Some []"
    and "messagesContainer st = Some ns"
  shows "actionButton_click st buttonText now =
           (st\<lparr>messagesContainer := Some (ns @ [ErrorEl (js ''No active file selected'')])\<rparr>, [])"
  using assms by (auto simp: actionButton_click_def addErrorMessage_def Let_def)

theorem action_without_context_witness:
  "currentFileContent (example_plugin\<lparr>currentFileContent := None\<rparr>) = None
   \<and> messagesContainer (example_plugin\<lparr>currentFileContent := None\<rparr>) =
       Some [MessageEl User (js ''Hi''), TypingIndicator 0]
   \<and> snd (actionButton_click (example_plugin\<lparr>currentFileContent := None\<rparr>)
            (Some (textContent SummarizeButton)) 7) = []
   \<and> children (fst (actionButton_click (example_plugin\<lparr>currentFileContent := None\<rparr>)
            (Some (textContent SummarizeButton)) 7)) =
       [MessageEl User (js ''Hi''), TypingIndicator 0, ErrorEl (js ''No active file selected'')]"
proof -
  let ?st = "example_plugin\<lparr>currentFileContent := None\<rparr>"
  have h1: "currentFileContent ?st = None \<or> currentFileContent ?st = Some []" by simp
  have h2: "messagesContainer ?st = Some [MessageEl User (js ''Hi''), TypingIndicator 0]"
    by (simp add: example_plugin_def)
  show ?thesis
    using h2 action_without_context [OF h1 h2, of "Some (textContent SummarizeButton)" 7]
    by (simp add: children_def)
qed

text \<open>
  What the shipped buttons give the handler. The icon is part of the trimmed text, so
  it is none of the four labels of the \<^verbatim>\<open>switch\<close>: with an active context a click
  only hides the suggestions, and issues nothing.
\<close>

lemma trim_button_markup:
  assumes "icon \<noteq> []" and "\<not> is_white_space (hd icon)"
    and "label \<noteq> []" and "\<not> is_white_space (last label)"
  shows "trim (button_markup icon label) = icon @ [LF, TAB, TAB, TAB, TAB, TAB] @ label"
proof -
  have ws: "is_white_space LF" "is_white_space TAB"
    by (simp_all add: is_white_space_def LF_def TAB_def)
  have front: "dropWhile is_white_space (button_markup icon label) =
                 icon @ [LF, TAB, TAB, TAB, TAB, TAB] @ label @ [LF, TAB, TAB, TAB, TAB]"
    using assms(1,2) by (cases icon) (simp_all add: button_markup_def ws)
  have "dropWhile is_white_space
          (rev (icon @ [LF, TAB, TAB, TAB, TAB, TAB] @ label @ [LF, TAB, TAB, TAB, TAB])) =
        rev (icon @ [LF, TAB, TAB, TAB, TAB, TAB] @ label)"
    using assms(3,4) by (cases label rule: rev_cases) (simp_all add: ws)
  then show ?thesis by (simp only: trim_def front rev_rev_ident)
qed

lemma trim_textContent:
  "trim (textContent SummarizeButton) =
     [0xD83D, 0xDCDD] @ [LF, TAB, TAB, TAB, TAB, TAB] @ js ''Summarize this page''"
  "trim (textContent AskButton) =
     [0xD83D, 0xDD0D] @ [LF, TAB, TAB, TAB, TAB, TAB] @ js ''Ask about this page''"
  "trim (textContent ActionItemsButton) =
     [0x2713] @ [LF, TAB, TAB, TAB, TAB, TAB] @ js ''Find action items''"
  "trim (textContent TranslateButton) =
     [0xD83C, 0xDF10] @ [LF, TAB, TAB, TAB, TAB, TAB] @ js ''Translate to''"
proof -
  have icons: "\<not> is_white_space 0xD83D" "\<not> is_white_space 0x2713" "\<not> is_white_space 0xD83C"
    by (simp_all add: is_white_space_def)
  have letters: "\<not> is_white_space 0x65" "\<not> is_white_space 0x73" "\<not> is_white_space 0x6F"
    by (simp_all add: is_white_space_def)
  show "trim (textContent SummarizeButton) =
     [0xD83D, 0xDCDD] @ [LF, TAB, TAB, TAB, TAB, TAB] @ js ''Summarize this page''"
    unfolding textContent.simps
    by (rule trim_button_markup) (simp_all add: js_def icons letters)
  show "trim (textContent AskButton) =
     [0xD83D, 0xDD0D] @ [LF, TAB, TAB, TAB, TAB, TAB] @ js ''Ask about this page''"
    unfolding textContent.simps
    by (rule trim_button_markup) (simp_all add: js_def icons letters)
  show "trim (textContent ActionItemsButton) =
     [0x2713] @ [LF, TAB, TAB, TAB, TAB, TAB] @ js ''Find action items''"
    unfolding textContent.simps
    by (rule trim_button_markup) (simp_all add: js_def icons letters)
  show "trim (textContent TranslateButton) =
     [0xD83C, 0xDF10] @ [LF, TAB, TAB, TAB, TAB, TAB] @ js ''Translate to''"
    unfolding textContent.simps
    by (rule trim_button_markup) (simp_all add: js_def icons letters)
qed

lemma shipped_button_no_label:
  "trim (textContent button) \<noteq> js ''Summarize this page''"
  "trim (textContent button) \<noteq> js ''Ask about this page''"
  "trim (textContent button) \<noteq> js ''Find action items''"
  "trim (textContent button) \<noteq> js ''Translate to''"
proof -
  show "trim (textContent button) \<noteq> js ''Summarize this page''"
    by (cases button) (simp_all only: trim_textContent, simp_all add: js_def)
  show "trim (textContent button) \<noteq> js ''Ask about this page''"
    by (cases button) (simp_all only: trim_textContent, simp_all add: js_def)
  show "trim (textContent button) \<noteq> js ''Find action items''"
    by (cases button) (simp_all only: trim_textContent, simp_all add: js_def)
  show "trim (textContent button) \<noteq> js ''Translate to''"
    by (cases button) (simp_all only: trim_textContent, simp_all add: js_def)
qed

lemma shipped_button_click:
  assumes "currentFileContent st = Some D" and "D \<noteq> []"
  shows "actionButton_click st (Some (textContent button)) now =
           (st\<lparr>suggestedActions_display := DisplayNone\<rparr>, [])"
  using assms
  by (simp add: actionButton_click_def Let_def shipped_button_no_label toggleSuggestedActions_def)

text \<open>
  C6. The click on the translate button appends no user message, in any state.
  Opening the picker appends nothing and hands it the captured text. When the
  picker's callback runs with a client configured it issues the translate call and
  changes nothing; when that call settles, the transcript grows by exactly one entry:
  the bot message with the translation, or the error "Translation failed".
\<close>

theorem translate_action:
  assumes "messagesContainer st = Some ns" and "geminiService st \<noteq> None"
  shows "filter is_user (children (fst (actionButton_click st (Some (textContent TranslateButton)) now)))
           = filter is_user ns
         \<and> showLanguageSelectionModal st doc = (st, [OpenLanguageModal doc])
         \<and> languageSelected st doc language = (st, [TranslateContent doc language])
         \<and> children (translateContent_settled st (Inr translation) now) =
             ns @ [MessageEl Bot translation]
         \<and> children (translateContent_settled st (Inl error) now) =
             ns @ [ErrorEl (js ''Translation failed'')]"
proof -
  have "filter is_user (children (fst (actionButton_click st (Some (textContent TranslateButton)) now)))
          = filter is_user ns"
  proof (cases "currentFileContent st = None \<or> currentFileContent st = Some []")
    case True
    with assms(1) show ?thesis
      by (auto simp: actionButton_click_def addErrorMessage_def children_def Let_def)
  next
    case False
    then obtain D where D: "currentFileContent st = Some D" "D \<noteq> []" by auto
    show ?thesis
      unfolding shipped_button_click [OF D] using assms(1) by (simp add: children_def)
  qed
  moreover have "showLanguageSelectionModal st doc = (st, [OpenLanguageModal doc])"
    by (simp add: showLanguageSelectionModal_def)
  moreover have "languageSelected st doc language = (st, [TranslateContent doc language])"
    using assms(2) by (simp add: languageSelected_def)
  moreover have "children (translateContent_settled st (Inr translation) now) =
             ns @ [MessageEl Bot translation]"
    using assms(1) by (simp add: translateContent_settled_def addMessageToChat_def children_def)
  moreover have "children (translateContent_settled st (Inl error) now) =
             ns @ [ErrorEl (js ''Translation failed'')]"
    using assms(1) by (simp add: translateContent_settled_def addErrorMessage_def children_def)
  ultimately show ?thesis by blast
qed

theorem translate_action_witness:
  "messagesContainer example_plugin = Some [MessageEl User (js ''Hi''), TypingIndicator 0]
   \<and> geminiService example_plugin \<noteq> None
   \<and> filter is_user (children (fst (actionButton_click example_plugin
         (Some (textContent TranslateButton)) 9))) = [MessageEl User (js ''Hi'')]
   \<and> languageSelected example_plugin (js ''Doc text'') (js ''French'') =
       (example_plugin, [TranslateContent (js ''Doc text'') (js ''French'')])
   \<and> children (translateContent_settled example_plugin (Inr (js ''Texte'')) 9) =
       [MessageEl User (js ''Hi''), TypingIndicator 0, MessageEl Bot (js ''Texte'')]"
proof -
  have h1: "messagesContainer example_plugin = Some [MessageEl User (js ''Hi''), TypingIndicator 0]"
    by (simp add: example_plugin_def)
  have h2: "geminiService example_plugin \<noteq> None" by (simp add: example_plugin_def)
  show ?thesis
    using h1 h2 translate_action [OF h1 h2, where now = 9 and doc = "js ''Doc text''"
        and language = "js ''French''" and translation = "js ''Texte''"]
    by simp
qed

text \<open>
  C10. With no model client when the picker's callback runs, nothing happens: no
  request, and the plugin, its transcript included, is as before.
\<close>

theorem translate_without_client:
  assumes "geminiService st = None"
  shows "languageSelected st doc language = (st, [])"
  using assms by (simp add: languageSelected_def)

theorem translate_without_client_witness:
  "geminiService (example_plugin\<lparr>geminiService := None\<rparr>) = None
   \<and> languageSelected (example_plugin\<lparr>geminiService := None\<rparr>) (js ''Doc text'') (js ''French'') =
       (example_plugin\<lparr>geminiService := None\<rparr>, [])"
proof -
  have h: "geminiService (example_plugin\<lparr>geminiService := None\<rparr>) = None" by simp
  show ?thesis
    using h translate_without_client [OF h, of "js ''Doc text''" "js ''French''"] by simp
qed

section \<open>Opening the panel\<close>

text \<open>
  C8. Toggling the hidden panel (opening a session) leaves the transcript empty,
  whatever it held and whether or not a file is active.
\<close>

theorem open_clears_conversation:
  assumes "chatContainer_display st = DisplayNone"
  shows "children (fst (toggleChatContainer st activeFile)) = []
         \<and> conversation (fst (toggleChatContainer st activeFile)) = []"
  using assms
  by (cases "messagesContainer st")
     (simp_all add: toggleChatContainer_def Let_def updateChatHeader_def
        toggleSuggestedActions_def children_def conversation_def split: option.splits)

theorem open_clears_conversation_witness:
  "chatContainer_display example_plugin = DisplayNone
   \<and> children example_plugin = [MessageEl User (js ''Hi''), TypingIndicator 0]
   \<and> children (fst (toggleChatContainer example_plugin None)) = []"
proof -
  have h: "chatContainer_display example_plugin = DisplayNone" by (simp add: example_plugin_def)
  have c: "children example_plugin = [MessageEl User (js ''Hi''), TypingIndicator 0]"
    by (simp add: example_plugin_def children_def)
  show ?thesis
    using h c open_clears_conversation [OF h, of None] by simp
qed

text \<open>
  C9. The plugin that captured "Doc text" in an earlier session is opened while no
  file is active: the header is hidden and no read is issued, yet the captured text
  stays, so the next submission still sends it as context.
\<close>

theorem open_without_file_keeps_context:
  "currentFileContent (fst (toggleChatContainer example_plugin None)) = Some (js ''Doc text'')
   \<and> currentFile_display (fst (toggleChatContainer example_plugin None)) = DisplayNone
   \<and> snd (toggleChatContainer example_plugin None) = []"
  by (simp add: toggleChatContainer_def Let_def updateChatHeader_def toggleSuggestedActions_def
      example_plugin_def)

lemma open_context_unchanged:
  "currentFileContent (fst (toggleChatContainer st activeFile)) = currentFileContent st"
  by (simp add: toggleChatContainer_def Let_def updateChatHeader_def toggleSuggestedActions_def
      split: option.splits)

section \<open>The credential transform\<close>

lemma base64_value_char: "n < 64 \<Longrightarrow> base64_value (base64_char n) = Some n"
  by (auto simp: base64_value_def base64_char_def)

lemma base64_char_not_pad: "n < 64 \<Longrightarrow> base64_char n \<noteq> 61"
  by (auto simp: base64_char_def)

lemma base64_char_not_ws: "n < 64 \<Longrightarrow> \<not> is_ascii_whitespace (base64_char n)"
  by (auto simp: base64_char_def is_ascii_whitespace_def)

lemma to_sextets_bound: "\<forall>b\<in>set bytes. b < 256 \<Longrightarrow> \<forall>s\<in>set (to_sextets bytes). s < 64"
  by (induction bytes rule: to_sextets.induct) auto

lemma from_to_sextets: "\<forall>b\<in>set bytes. b < 256 \<Longrightarrow> from_sextets (to_sextets bytes) = bytes"
  by (induction bytes rule: to_sextets.induct) auto

lemma those_values_chars: "\<forall>s\<in>set sextets. s < 64 \<Longrightarrow> those_values (map base64_char sextets) = Some sextets"
  by (induction sextets) (simp_all add: base64_value_char)

lemma padding_cases: "padding bytes = [] \<or> padding bytes = [61] \<or> padding bytes = [61, 61]"
  by (induction bytes rule: padding.induct) simp_all

lemma strip_padding_encoded:
  assumes "\<forall>c\<in>set cs. c \<noteq> 61"
    and "pad = [] \<or> pad = [61] \<or> pad = [61, 61]"
    and "length (cs @ pad) mod 4 = 0"
  shows "strip_padding (cs @ pad) = cs"
proof -
  consider "pad = []" | "pad = [61]" | "pad = [61, 61]" using assms(2) by blast
  then show ?thesis
  proof cases
    case 1
    with assms(1) show ?thesis by (cases "cs = []") (simp_all add: strip_padding_def)
  next
    case 2
    with assms(1,3) show ?thesis by (cases "cs = []") (simp_all add: strip_padding_def)
  next
    case 3
    with assms(3) show ?thesis by (simp add: strip_padding_def butlast_append)
  qed
qed

lemma Suc4_mod_4: "Suc (Suc (Suc (Suc n))) mod 4 = n mod 4"
proof -
  have "Suc (Suc (Suc (Suc n))) = n + 4" by simp
  then show ?thesis by (simp only: mod_add_self2)
qed

lemma length_encoded: "(length (to_sextets bytes) + length (padding bytes)) mod 4 = 0"
  by (induction bytes rule: to_sextets.induct) (simp_all add: Suc4_mod_4)

lemma length_sextets_mod: "length (to_sextets bytes) mod 4 \<noteq> Suc 0"
  by (induction bytes rule: to_sextets.induct) (simp_all add: Suc4_mod_4)

lemma decode_encode:
  assumes "\<forall>b\<in>set bytes. b < 256"
  shows "forgiving_base64_decode (base64_encode bytes) = Some bytes"
proof -
  let ?sx = "to_sextets bytes"
  have sx: "\<forall>s\<in>set ?sx. s < 64" using assms by (rule to_sextets_bound)
  have pad_ws: "\<forall>c\<in>set (padding bytes). \<not> is_ascii_whitespace c"
    using padding_cases [of bytes] by (auto simp: is_ascii_whitespace_def)
  have nows: "filter (\<lambda>c. \<not> is_ascii_whitespace c) (base64_encode bytes) = base64_encode bytes"
    using sx pad_ws by (auto simp: base64_encode_def filter_id_conv base64_char_not_ws)
  have len: "length (map base64_char ?sx @ padding bytes) mod 4 = 0"
    using length_encoded [of bytes] by simp
  have nopad: "\<forall>c\<in>set (map base64_char ?sx). c \<noteq> 61"
    using sx by (auto simp: base64_char_not_pad)
  have strip: "strip_padding (base64_encode bytes) = map base64_char ?sx"
    unfolding base64_encode_def
    using nopad padding_cases [of bytes] len by (rule strip_padding_encoded)
  have vals: "those_values (map base64_char ?sx) = Some ?sx"
    using sx by (rule those_values_chars)
  have "forgiving_base64_decode (base64_encode bytes) = Some (from_sextets ?sx)"
    by (simp add: forgiving_base64_decode_def nows strip vals length_sextets_mod)
  then show ?thesis by (simp add: from_to_sextets [OF assms])
qed

lemma unat_code: "n < 65536 \<Longrightarrow> unat (of_nat n :: 16 word) = n"
  by (simp add: unat_of_nat)

lemma encoded_small: "\<forall>b\<in>set bytes. b < 256 \<Longrightarrow> \<forall>c\<in>set (base64_encode bytes). c < 128"
  using to_sextets_bound [of bytes] padding_cases [of bytes]
  by (auto simp: base64_encode_def base64_char_def)

lemma atob_btoa:
  assumes "\<forall>c\<in>set data. c \<le> 0xFF"
  shows "\<exists>encoded. btoa data = Inr encoded \<and> atob encoded = Inr data"
proof -
  let ?bytes = "map unat data"
  have b: "\<forall>b\<in>set ?bytes. b < 256"
    using assms by (auto simp: word_le_nat_alt)
  have noex: "\<not> list_ex (\<lambda>c. c > 0xFF) data"
    using assms by (auto simp: list_ex_iff)
  have bk: "map unat (map of_nat (base64_encode ?bytes) :: jsstring) = base64_encode ?bytes"
  proof -
    have "unat (of_nat c :: code_unit) = c" if "c \<in> set (base64_encode ?bytes)" for c
      using encoded_small [OF b] that by (intro unat_code) fastforce
    then show ?thesis by (simp add: map_idI)
  qed
  have "atob (map of_nat (base64_encode ?bytes)) = Inr data"
    unfolding atob_def bk decode_encode [OF b] by (simp add: map_idI)
  with noex show ?thesis by (simp add: btoa_def)
qed

text \<open>
  C4, as amended. A key whose code units are all at most U+00FF is stored and read
  back unchanged, and storing what was read back from its stored form gives that
  stored form again.
\<close>

theorem credential_round_trip:
  assumes "\<forall>c\<in>set s. c \<le> 0xFF"
  shows "reveal_obfuscate s = Inr s
         \<and> (\<exists>stored. encryptApiKey s = Inr stored \<and> obfuscate_reveal stored = Inr stored)"
proof -
  have "\<forall>c\<in>set (rev s). c \<le> 0xFF" using assms by simp
  then obtain stored where enc: "btoa (rev s) = Inr stored" and dec: "atob stored = Inr (rev s)"
    using atob_btoa by blast
  have "reveal_obfuscate s = Inr s"
    by (simp add: reveal_obfuscate_def encryptApiKey_def decryptApiKey_def enc dec)
  moreover have "obfuscate_reveal stored = Inr stored"
    by (simp add: obfuscate_reveal_def encryptApiKey_def decryptApiKey_def enc dec)
  moreover have "encryptApiKey s = Inr stored" by (simp add: encryptApiKey_def enc)
  ultimately show ?thesis by blast
qed

theorem credential_round_trip_witness:
  "reveal_obfuscate (js ''abc123'') = Inr (js ''abc123'')"
proof -
  have h: "\<forall>c\<in>set (js ''abc123''). c \<le> 0xFF" by (simp add: js_def)
  show ?thesis using h credential_round_trip [OF h] by blast
qed

text \<open>
  C4, as stated, fails for the second law: the printable text "abc" is read back as
  two bytes, and storing those gives "abc=".
\<close>

theorem obfuscate_reveal_abc:
  "obfuscate_reveal (js ''abc'') = Inr (js ''abc='') \<and> js ''abc='' \<noteq> js ''abc''"
  by (simp add: obfuscate_reveal_def decryptApiKey_def encryptApiKey_def atob_def btoa_def
      js_def forgiving_base64_decode_def strip_padding_def base64_value_def
      is_ascii_whitespace_def base64_encode_def base64_char_def)

text \<open>Neither method is total: each throws outside its domain.\<close>

lemma encryptApiKey_throws: "encryptApiKey [0x20AC] = Inl InvalidCharacterError"
  by (simp add: encryptApiKey_def btoa_def)

lemma decryptApiKey_throws: "decryptApiKey (js ''!'') = Inl InvalidCharacterError"
  by (simp add: decryptApiKey_def atob_def js_def forgiving_base64_decode_def strip_padding_def
      base64_value_def is_ascii_whitespace_def)

lemma stored_abc123: "encryptApiKey (js ''abc123'') = Inr (js ''MzIxY2Jh'')"
  by (simp add: encryptApiKey_def btoa_def js_def base64_encode_def base64_char_def)

text \<open>The stored key of the concrete plugin is the one its client was built from.\<close>

lemma initialize_example:
  "geminiService (initializeGeminiService (example_plugin\<lparr>geminiService := None\<rparr>)) =
     Some (GeminiService (js ''abc123''))"
  by (simp add: initializeGeminiService_def example_plugin_def decryptApiKey_def atob_def js_def
      forgiving_base64_decode_def strip_padding_def base64_value_def is_ascii_whitespace_def)


end
